theory Spec2Isabelle
  imports Complex_Main
begin

section \<open>Values of the server\<close>

text \<open>
  The module \<^verbatim>\<open>main.py\<close> is a FastAPI server; the one endpoint with decision logic is
  \<^verbatim>\<open>call_underwrite_loan\<close>, which calls \<^verbatim>\<open>compute_emi\<close>.

  Conventions of the embedding:
  \<^item> Python's unbounded \<^verbatim>\<open>int\<close> is \<^typ>\<open>int\<close>.
  \<^item> Python's \<^verbatim>\<open>float\<close> is an IEEE 754 binary64 value, of type \<open>pyfloat\<close>: a finite
    value (given by the real number it denotes), one of the two infinities, or a NaN.
    The two zeros are one value, \<open>Fin 0\<close>: \<^verbatim>\<open>==\<close> does not tell them apart, a division
    by either raises, and no operation used here gives a different result for them, up
    to the sign of a zero.
  \<^item> An exception is a value of type \<open>error\<close>; a function that may raise returns
    \<open>error + 'a\<close>, with \<open>Inl\<close> the exception.
  \<^item> A dict literal returned by an endpoint is an association list, in the order of the
    source, of values of type \<open>pyval\<close>.
\<close>

datatype error = HTTPException nat | ZeroDivisionError | OverflowError

datatype pyfloat = Fin real | PInf | NInf | NaN

datatype pyval = PStr string | PInt int | PFloat pyfloat | PDict "(string \<times> pyval) list"

text \<open>A number passed where the source says \<^verbatim>\<open>float\<close>: an \<^verbatim>\<open>int\<close> or a \<^verbatim>\<open>float\<close>.\<close>

datatype pynum = PyInt int | PyFloat pyfloat

section \<open>Binary64 arithmetic\<close>

text \<open>
  Rounding to the nearest integer, ties to the even one.
\<close>

definition round_half_even :: "real \<Rightarrow> int" where
  "round_half_even t =
    (let f = \<lfloor>t\<rfloor>; d = t - of_int f in
     if d < 1 / 2 then f else if 1 / 2 < d then f + 1 else if even f then f else f + 1)"

text \<open>
  The exponent of the last place of the doubles around \<open>x\<close>: a normal double has 53
  significant bits, and below \<open>2 powi (- 1022)\<close> the spacing stays \<open>2 powi (- 1074)\<close>.
\<close>

definition ulp_exponent :: "real \<Rightarrow> int" where
  "ulp_exponent x = max \<lfloor>log 2 \<bar>x\<bar>\<rfloor> (- 1022) - 52"

definition nearest_double :: "real \<Rightarrow> real" where
  "nearest_double x =
    (if x = 0 then 0
     else of_int (round_half_even (x / 2 powi ulp_exponent x)) * 2 powi ulp_exponent x)"

definition binary64_overflow :: real where
  "binary64_overflow = 2 ^ 1024"

text \<open>
  The result of an operation whose exact value is \<open>x\<close>, in the default rounding mode
  (to nearest, ties to even): a value that rounds to \<open>2 ^ 1024\<close> in magnitude is an
  infinity.
\<close>

definition round_binary64 :: "real \<Rightarrow> pyfloat" where
  "round_binary64 x =
    (let y = nearest_double x in
     if binary64_overflow \<le> y then PInf
     else if y \<le> - binary64_overflow then NInf
     else Fin y)"

text \<open>
  The arithmetic the interpreter runs on: how the exact result of an operation becomes a
  float, and the \<^verbatim>\<open>pow\<close> of the platform's C library.  The latter is not part of
  \<^verbatim>\<open>main.py\<close>, and is not required to round correctly: it is a parameter, giving for a
  base and an exponent the double returned and whether \<^verbatim>\<open>errno\<close> was set to
  \<^verbatim>\<open>ERANGE\<close>.
\<close>

record arith =
  rounding :: "real \<Rightarrow> pyfloat"
  libm_pow :: "real \<Rightarrow> real \<Rightarrow> pyfloat \<times> bool"

text \<open>The arithmetic of the program: binary64, with \<open>pw\<close> the platform's \<^verbatim>\<open>pow\<close>.\<close>

definition double :: "(real \<Rightarrow> real \<Rightarrow> pyfloat \<times> bool) \<Rightarrow> arith" where
  "double pw = \<lparr>rounding = round_binary64, libm_pow = pw\<rparr>"

text \<open>A \<^verbatim>\<open>pow\<close> that rounds correctly and leaves \<^verbatim>\<open>errno\<close> alone.\<close>

definition correctly_rounded_pow :: "real \<Rightarrow> real \<Rightarrow> pyfloat \<times> bool" where
  "correctly_rounded_pow x y = (round_binary64 (x powr y), False)"

text \<open>
  The same operations without rounding, overflow or underflow: the arithmetic of the real
  numbers, against which the program's results are compared.
\<close>

definition exact :: arith where
  "exact = \<lparr>rounding = Fin, libm_pow = (\<lambda>x y. (Fin (x powr y), False))\<rparr>"

fun fneg :: "pyfloat \<Rightarrow> pyfloat" where
  "fneg (Fin x) = Fin (- x)"
| "fneg PInf = NInf"
| "fneg NInf = PInf"
| "fneg NaN = NaN"

text \<open>\<^verbatim>\<open>a + b\<close> on floats.\<close>

fun fadd :: "arith \<Rightarrow> pyfloat \<Rightarrow> pyfloat \<Rightarrow> pyfloat" where
  "fadd ar (Fin x) (Fin y) = rounding ar (x + y)"
| "fadd ar NaN b = NaN"
| "fadd ar a NaN = NaN"
| "fadd ar PInf NInf = NaN"
| "fadd ar NInf PInf = NaN"
| "fadd ar PInf b = PInf"
| "fadd ar NInf b = NInf"
| "fadd ar a PInf = PInf"
| "fadd ar a NInf = NInf"

text \<open>\<^verbatim>\<open>a - b\<close> on floats.\<close>

definition fsub :: "arith \<Rightarrow> pyfloat \<Rightarrow> pyfloat \<Rightarrow> pyfloat" where
  "fsub ar a b = fadd ar a (fneg b)"

text \<open>The product of an infinity and a finite value: NaN for a zero, else by the signs.\<close>

definition inf_times :: "bool \<Rightarrow> real \<Rightarrow> pyfloat" where
  "inf_times positive x =
    (if x = 0 then NaN else if (0 < x) = positive then PInf else NInf)"

text \<open>\<^verbatim>\<open>a * b\<close> on floats.\<close>

fun fmul :: "arith \<Rightarrow> pyfloat \<Rightarrow> pyfloat \<Rightarrow> pyfloat" where
  "fmul ar (Fin x) (Fin y) = rounding ar (x * y)"
| "fmul ar NaN b = NaN"
| "fmul ar a NaN = NaN"
| "fmul ar PInf (Fin y) = inf_times True y"
| "fmul ar NInf (Fin y) = inf_times False y"
| "fmul ar (Fin x) PInf = inf_times True x"
| "fmul ar (Fin x) NInf = inf_times False x"
| "fmul ar PInf PInf = PInf"
| "fmul ar PInf NInf = NInf"
| "fmul ar NInf PInf = NInf"
| "fmul ar NInf NInf = PInf"

text \<open>
  \<^verbatim>\<open>a / b\<close> on floats: Python raises \<^verbatim>\<open>ZeroDivisionError\<close> for a zero divisor,
  whatever the dividend; otherwise the quotient is the IEEE one.
\<close>

fun fdiv :: "arith \<Rightarrow> pyfloat \<Rightarrow> pyfloat \<Rightarrow> error + pyfloat" where
  "fdiv ar a (Fin y) =
    (if y = 0 then Inl ZeroDivisionError
     else Inr (case a of
                 Fin x \<Rightarrow> rounding ar (x / y)
               | PInf \<Rightarrow> inf_times True y
               | NInf \<Rightarrow> inf_times False y
               | NaN \<Rightarrow> NaN))"
| "fdiv ar (Fin x) PInf = Inr (Fin 0)"
| "fdiv ar (Fin x) NInf = Inr (Fin 0)"
| "fdiv ar a b = Inr NaN"

text \<open>\<^verbatim>\<open>a <= b\<close> on floats: false when either is a NaN.\<close>

fun fle :: "pyfloat \<Rightarrow> pyfloat \<Rightarrow> bool" where
  "fle (Fin x) (Fin y) = (x \<le> y)"
| "fle NaN b = False"
| "fle a NaN = False"
| "fle NInf b = True"
| "fle a PInf = True"
| "fle a b = False"

text \<open>
  The conversion of an \<^verbatim>\<open>int\<close> operand of a float operation: the nearest double, or
  \<^verbatim>\<open>OverflowError\<close> (\<^verbatim>\<open>int too large to convert to float\<close>).
\<close>

definition int_to_float :: "arith \<Rightarrow> int \<Rightarrow> error + real" where
  "int_to_float ar i =
    (case rounding ar (of_int i) of Fin v \<Rightarrow> Inr v | _ \<Rightarrow> Inl OverflowError)"

text \<open>
  \<^verbatim>\<open>i / j\<close> on two \<^verbatim>\<open>int\<close>s: the double nearest to the quotient, \<^verbatim>\<open>ZeroDivisionError\<close>
  for \<open>j = 0\<close>, \<^verbatim>\<open>OverflowError\<close> when the quotient is too large for a float.
\<close>

definition int_truediv :: "arith \<Rightarrow> int \<Rightarrow> int \<Rightarrow> error + pyfloat" where
  "int_truediv ar i j =
    (if j = 0 then Inl ZeroDivisionError
     else (case rounding ar (of_int i / of_int j) of
             Fin v \<Rightarrow> Inr (Fin v)
           | _ \<Rightarrow> Inl OverflowError))"

text \<open>\<^verbatim>\<open>P / n\<close> for a number \<open>P\<close> and an \<^verbatim>\<open>int\<close> \<open>n\<close>.\<close>

definition num_truediv :: "arith \<Rightarrow> pynum \<Rightarrow> int \<Rightarrow> error + pyfloat" where
  "num_truediv ar P n =
    (case P of
       PyInt i \<Rightarrow> int_truediv ar i n
     | PyFloat a \<Rightarrow>
         (case int_to_float ar n of
            Inl e \<Rightarrow> Inl e
          | Inr d \<Rightarrow> fdiv ar a (Fin d)))"

text \<open>The operand \<open>P\<close> of \<^verbatim>\<open>P * r\<close>, for a float \<open>r\<close>.\<close>

definition num_to_float :: "arith \<Rightarrow> pynum \<Rightarrow> error + pyfloat" where
  "num_to_float ar P =
    (case P of
       PyInt i \<Rightarrow> (case int_to_float ar i of Inl e \<Rightarrow> Inl e | Inr v \<Rightarrow> Inr (Fin v))
     | PyFloat a \<Rightarrow> Inr a)"

text \<open>\<^verbatim>\<open>fmod(fabs(x), 2.0) == 1.0\<close>\<close>

definition double_is_odd_integer :: "real \<Rightarrow> bool" where
  "double_is_odd_integer x = (\<bar>x\<bar> - 2 * of_int \<lfloor>\<bar>x\<bar> / 2\<rfloor> = 1)"

text \<open>
  \<^verbatim>\<open>v ** n\<close> for a float \<open>v\<close> and an \<^verbatim>\<open>int\<close> \<open>n\<close>, as the interpreter's \<^verbatim>\<open>float_pow\<close>
  computes it.  The exponent is converted to a double first.  The special cases come in
  this order: a zero exponent gives 1.0; a NaN base gives NaN; an infinite base gives an
  infinity or a zero; a zero base raises \<^verbatim>\<open>ZeroDivisionError\<close> for a negative exponent;
  a negative base is replaced by its absolute value, the result being negated for an odd
  exponent; a base of absolute value 1 gives 1.0 or -1.0.  Only then is the platform's
  \<^verbatim>\<open>pow\<close> called: an infinite result, or \<^verbatim>\<open>ERANGE\<close> with a non-zero result, raises
  \<^verbatim>\<open>OverflowError\<close>.
\<close>

definition py_pow :: "arith \<Rightarrow> pyfloat \<Rightarrow> int \<Rightarrow> error + pyfloat" where
  "py_pow ar v n =
    (case int_to_float ar n of
       Inl e \<Rightarrow> Inl e
     | Inr iw \<Rightarrow>
         if iw = 0 then Inr (Fin 1)
         else
           (case v of
              NaN \<Rightarrow> Inr NaN
            | PInf \<Rightarrow> Inr (if 0 < iw then PInf else Fin 0)
            | NInf \<Rightarrow>
                Inr (if 0 < iw then (if double_is_odd_integer iw then NInf else PInf)
                     else Fin 0)
            | Fin iv \<Rightarrow>
                if iv = 0 then (if iw < 0 then Inl ZeroDivisionError else Inr (Fin 0))
                else
                  (let negate_result = (iv < 0 \<and> double_is_odd_integer iw) in
                   if \<bar>iv\<bar> = 1 then Inr (Fin (if negate_result then - 1 else 1))
                   else
                     (case libm_pow ar \<bar>iv\<bar> iw of
                        (ix, erange) \<Rightarrow>
                          if (if erange then ix \<noteq> Fin 0 else ix = PInf \<or> ix = NInf)
                          then Inl OverflowError
                          else Inr (if negate_result then fneg ix else ix)))))"

section \<open>The EMI calculator\<close>

text \<open>
  \<^verbatim>\<open>
  def compute_emi(P, annual_rate, n_months):
      r = annual_rate / 12.0 / 100.0
      if r == 0:
          return P / n_months
      return (P * r * (1 + r) ** n_months) / ((1 + r) ** n_months - 1)
  \<close>
  The operations are taken in the order Python evaluates them: \<^verbatim>\<open>P * r\<close>, which
  converts an \<^verbatim>\<open>int\<close> \<open>P\<close>, comes before the power.  The power is evaluated twice in the
  source, on the same arguments and with the same outcome.
\<close>

definition compute_emi :: "arith \<Rightarrow> pynum \<Rightarrow> pyfloat \<Rightarrow> int \<Rightarrow> error + pyfloat" where
  "compute_emi ar P annual_rate n_months =
    (case fdiv ar annual_rate (Fin 12) of
       Inl e \<Rightarrow> Inl e
     | Inr r12 \<Rightarrow>
         (case fdiv ar r12 (Fin 100) of
            Inl e \<Rightarrow> Inl e
          | Inr r \<Rightarrow>
              if r = Fin 0 then num_truediv ar P n_months
              else
                (case num_to_float ar P of
                   Inl e \<Rightarrow> Inl e
                 | Inr Pf \<Rightarrow>
                     (case py_pow ar (fadd ar (Fin 1) r) n_months of
                        Inl e \<Rightarrow> Inl e
                      | Inr p \<Rightarrow>
                          fdiv ar (fmul ar (fmul ar Pf r) p) (fsub ar p (Fin 1))))))"

section \<open>The customer table and the request\<close>

text \<open>
  An entry of the dict \<^verbatim>\<open>CUSTOMERS\<close>.  Every entry of the table carries all nine keys, so
  the defaults of \<^verbatim>\<open>cust.get("credit_score", 0)\<close>, \<^verbatim>\<open>cust.get("pre_approved_limit", 0)\<close>
  and \<^verbatim>\<open>cust.get("salary_monthly", 0)\<close> are never taken, and no entry is an empty dict.
\<close>

record customer =
  cust_customer_id :: string
  name :: string
  age :: int
  city :: string
  phone :: string
  email :: string
  pre_approved_limit :: int
  salary_monthly :: int
  credit_score :: int

text \<open>
  The pydantic model \<^verbatim>\<open>UnderwriteInput\<close>.  The two optional fields default to
  \<^verbatim>\<open>None\<close>; no field is validated beyond its type.
\<close>

record UnderwriteInput =
  customer_id :: string
  requested_amount :: int
  tenure_months :: int
  annual_rate :: pyfloat
  salary_provided :: "int option"
  salary_slip_resource :: "string option"

definition CUSTOMERS_items :: "(string \<times> customer) list" where
  "CUSTOMERS_items =
    [(''CUST001'', \<lparr>cust_customer_id = ''CUST001'', name = ''Asha Verma'', age = 32,
        city = ''Pune'', phone = ''9810000001'', email = ''asha@example.com'',
        pre_approved_limit = 300000, salary_monthly = 60000, credit_score = 745\<rparr>),
     (''CUST002'', \<lparr>cust_customer_id = ''CUST002'', name = ''Rahul Sharma'', age = 29,
        city = ''Delhi'', phone = ''9810000002'', email = ''rahul@example.com'',
        pre_approved_limit = 200000, salary_monthly = 45000, credit_score = 712\<rparr>),
     (''CUST003'', \<lparr>cust_customer_id = ''CUST003'', name = ''Sneha Iyer'', age = 35,
        city = ''Bengaluru'', phone = ''9810000003'', email = ''sneha@example.com'',
        pre_approved_limit = 400000, salary_monthly = 85000, credit_score = 780\<rparr>),
     (''CUST004'', \<lparr>cust_customer_id = ''CUST004'', name = ''Vikram Singh'', age = 40,
        city = ''Lucknow'', phone = ''9810000004'', email = ''vikram@example.com'',
        pre_approved_limit = 150000, salary_monthly = 30000, credit_score = 690\<rparr>),
     (''CUST005'', \<lparr>cust_customer_id = ''CUST005'', name = ''Nisha Patel'', age = 27,
        city = ''Ahmedabad'', phone = ''9810000005'', email = ''nisha@example.com'',
        pre_approved_limit = 250000, salary_monthly = 52000, credit_score = 710\<rparr>),
     (''CUST006'', \<lparr>cust_customer_id = ''CUST006'', name = ''Arjun Rao'', age = 31,
        city = ''Hyderabad'', phone = ''9810000006'', email = ''arjun@example.com'',
        pre_approved_limit = 350000, salary_monthly = 70000, credit_score = 760\<rparr>),
     (''CUST007'', \<lparr>cust_customer_id = ''CUST007'', name = ''Meera Desai'', age = 30,
        city = ''Surat'', phone = ''9810000007'', email = ''meera@example.com'',
        pre_approved_limit = 180000, salary_monthly = 40000, credit_score = 695\<rparr>),
     (''CUST008'', \<lparr>cust_customer_id = ''CUST008'', name = ''Karan Mehta'', age = 33,
        city = ''Mumbai'', phone = ''9810000008'', email = ''karan@example.com'',
        pre_approved_limit = 320000, salary_monthly = 65000, credit_score = 735\<rparr>),
     (''CUST009'', \<lparr>cust_customer_id = ''CUST009'', name = ''Priya Nair'', age = 28,
        city = ''Kochi'', phone = ''9810000009'', email = ''priya@example.com'',
        pre_approved_limit = 280000, salary_monthly = 48000, credit_score = 725\<rparr>),
     (''CUST010'', \<lparr>cust_customer_id = ''CUST010'', name = ''Sourav Ghosh'', age = 36,
        city = ''Kolkata'', phone = ''9810000010'', email = ''sourav@example.com'',
        pre_approved_limit = 500000, salary_monthly = 90000, credit_score = 790\<rparr>)]"

text \<open>\<^verbatim>\<open>CUSTOMERS.get(cid)\<close>: the entry, or \<^verbatim>\<open>None\<close>.\<close>

definition CUSTOMERS :: "string \<Rightarrow> customer option" where
  "CUSTOMERS = map_of CUSTOMERS_items"

text \<open>Two entries of the table, by their keys, for the worked examples below.\<close>

definition CUST001 :: customer where
  "CUST001 = \<lparr>cust_customer_id = ''CUST001'', name = ''Asha Verma'', age = 32,
      city = ''Pune'', phone = ''9810000001'', email = ''asha@example.com'',
      pre_approved_limit = 300000, salary_monthly = 60000, credit_score = 745\<rparr>"

definition CUST004 :: customer where
  "CUST004 = \<lparr>cust_customer_id = ''CUST004'', name = ''Vikram Singh'', age = 40,
      city = ''Lucknow'', phone = ''9810000004'', email = ''vikram@example.com'',
      pre_approved_limit = 150000, salary_monthly = 30000, credit_score = 690\<rparr>"

section \<open>The underwriting endpoint\<close>

text \<open>Truthiness of an optional int and of an optional str.\<close>

definition truthy_int :: "int option \<Rightarrow> bool" where
  "truthy_int v = (case v of None \<Rightarrow> False | Some n \<Rightarrow> n \<noteq> 0)"

definition truthy_str :: "string option \<Rightarrow> bool" where
  "truthy_str v = (case v of None \<Rightarrow> False | Some s \<Rightarrow> s \<noteq> [])"

text \<open>\<^verbatim>\<open>data.salary_provided or cust.get("salary_monthly", 0)\<close>\<close>

definition salary_or :: "int option \<Rightarrow> int \<Rightarrow> int" where
  "salary_or v d = (case v of None \<Rightarrow> d | Some n \<Rightarrow> if n \<noteq> 0 then n else d)"

text \<open>\<^verbatim>\<open>{"status": "ok", "result": r}\<close>\<close>

definition ok :: "(string \<times> pyval) list \<Rightarrow> pyval" where
  "ok r = PDict [(''status'', PStr ''ok''), (''result'', PDict r)]"

text \<open>
  Lines 153 to 178 of \<^verbatim>\<open>call_underwrite_loan\<close>: the decision procedure, once the
  customer has been found.  The rules are tried in the order of the source.  In the
  salary rule, \<^verbatim>\<open>compute_emi\<close> is called on line 171, and the \<^verbatim>\<open>int\<close> salary is
  converted for \<^verbatim>\<open>0.5 * salary\<close> on line 173.
\<close>

definition underwrite :: "arith \<Rightarrow> customer \<Rightarrow> UnderwriteInput \<Rightarrow> error + pyval" where
  "underwrite ar cust data =
    (let score = credit_score cust;
         pre_limit = pre_approved_limit cust;
         requested = requested_amount data;
         tenure = tenure_months data;
         rate = annual_rate data
     in
     if score < 700 then
       Inr (ok [(''decision'', PStr ''reject''), (''reason'', PStr ''credit_score_below_700''),
                (''credit_score'', PInt score)])
     else if requested \<le> pre_limit then
       (case compute_emi ar (PyInt requested) rate tenure of
          Inl e \<Rightarrow> Inl e
        | Inr emi \<Rightarrow>
            Inr (ok [(''decision'', PStr ''approve''), (''emi'', PFloat emi),
                     (''reason'', PStr ''within_pre_approved_limit'')]))
     else if requested \<le> 2 * pre_limit then
       (if \<not> truthy_str (salary_slip_resource data) \<and> \<not> truthy_int (salary_provided data) then
          Inr (ok [(''decision'', PStr ''require_salary_slip''),
                   (''reason'', PStr ''salary_slip_required'')])
        else
          (let salary = salary_or (salary_provided data) (salary_monthly cust) in
           case compute_emi ar (PyInt requested) rate tenure of
             Inl e \<Rightarrow> Inl e
           | Inr emi \<Rightarrow>
               (case int_to_float ar salary of
                  Inl e \<Rightarrow> Inl e
                | Inr s \<Rightarrow>
                    if fle emi (fmul ar (Fin (1 / 2)) (Fin s)) then
                      Inr (ok [(''decision'', PStr ''approve''), (''emi'', PFloat emi),
                               (''reason'', PStr ''emi_within_50pct_salary'')])
                    else
                      Inr (ok [(''decision'', PStr ''reject''),
                               (''reason'', PStr ''emi_exceeds_50pct_salary''),
                               (''emi'', PFloat emi)]))))
     else
       Inr (ok [(''decision'', PStr ''reject''),
                (''reason'', PStr ''amount_exceeds_2x_pre_approved''),
                (''pre_limit'', PInt pre_limit)]))"

text \<open>
  The endpoint: the lookup of lines 148 to 151 (\<^verbatim>\<open>HTTPException(status_code=404)\<close> when
  the customer is not in the table), then the decision procedure.
\<close>

definition call_underwrite_loan :: "arith \<Rightarrow> UnderwriteInput \<Rightarrow> error + pyval" where
  "call_underwrite_loan ar payload =
    (case CUSTOMERS (customer_id payload) of
       None \<Rightarrow> Inl (HTTPException 404)
     | Some cust \<Rightarrow> underwrite ar cust payload)"

section \<open>The state of the server\<close>





section \<open>Facts about rounding\<close>

lemma round_binary64_Fin:
  "\<bar>nearest_double x\<bar> < binary64_overflow \<Longrightarrow> round_binary64 x = Fin (nearest_double x)"
  unfolding round_binary64_def Let_def by (simp add: abs_less_iff not_le)

lemma binary64_overflow_gt: "2 ^ 54 < binary64_overflow"
  unfolding binary64_overflow_def by (rule power_strict_increasing) simp_all

lemma of_int_abs_less_power: "\<bar>m\<bar> < 2 ^ n \<Longrightarrow> \<bar>real_of_int m\<bar> < 2 ^ n"
  using of_int_less_iff [of "\<bar>m\<bar>" "2 ^ n", where ?'a = real] by simp

lemma round_half_even_of_int: "round_half_even (of_int k) = k"
  by (simp add: round_half_even_def)

lemma round_half_even_near: "\<bar>of_int (round_half_even t) - t\<bar> \<le> 1 / 2"
proof -
  have "of_int \<lfloor>t\<rfloor> \<le> t" "t < of_int \<lfloor>t\<rfloor> + 1" by linarith+
  then show ?thesis
    unfolding round_half_even_def Let_def by (auto simp: abs_le_iff)
qed

lemma round_half_even_bound: "\<bar>of_int (round_half_even t)\<bar> \<le> 2 * \<bar>t\<bar>"
proof (cases "round_half_even t = 0")
  case True
  then show ?thesis by simp
next
  case False
  then have "1 \<le> \<bar>round_half_even t\<bar>" by linarith
  then have "1 \<le> \<bar>real_of_int (round_half_even t)\<bar>" by linarith
  with round_half_even_near [of t] show ?thesis by linarith
qed

lemma round_half_even_nonneg: "0 \<le> t \<Longrightarrow> 0 \<le> round_half_even t"
proof -
  assume "0 \<le> t"
  with round_half_even_near [of t] have "- 1 < real_of_int (round_half_even t)" by linarith
  then show ?thesis by linarith
qed

lemma round_half_even_nonpos: "t \<le> 0 \<Longrightarrow> round_half_even t \<le> 0"
proof -
  assume "t \<le> 0"
  with round_half_even_near [of t] have "real_of_int (round_half_even t) < 1" by linarith
  then show ?thesis by linarith
qed

lemma nearest_double_bound: "\<bar>nearest_double x\<bar> \<le> 2 * \<bar>x\<bar>"
proof (cases "x = 0")
  case True
  then show ?thesis by (simp add: nearest_double_def)
next
  case False
  define q where "q = ulp_exponent x"
  have p: "0 < (2::real) powi q" by simp
  have "\<bar>nearest_double x\<bar> = \<bar>of_int (round_half_even (x / 2 powi q))\<bar> * 2 powi q"
    using False by (simp add: nearest_double_def q_def abs_mult)
  also have "\<dots> \<le> (2 * \<bar>x / 2 powi q\<bar>) * 2 powi q"
    using round_half_even_bound [of "x / 2 powi q"] p by (intro mult_right_mono) auto
  also have "\<dots> = 2 * \<bar>x\<bar>" using p by (simp add: abs_divide)
  finally show ?thesis .
qed

lemma nearest_double_nonneg: "0 \<le> x \<Longrightarrow> 0 \<le> nearest_double x"
  by (simp add: nearest_double_def round_half_even_nonneg)

lemma nearest_double_nonpos: "x \<le> 0 \<Longrightarrow> nearest_double x \<le> 0"
  by (simp add: nearest_double_def round_half_even_nonpos mult_nonpos_nonneg divide_nonpos_nonneg)


lemma floor_log2_less:
  assumes "0 < x" "x < 2 powi k"
  shows "\<lfloor>log 2 x\<rfloor> < k"
proof -
  have "x < 2 powr (of_int k)" using assms(2) by (simp add: powr_real_of_int')
  then have "log 2 x < of_int k" using assms(1) by (simp add: log_less_iff)
  then show ?thesis by (simp add: floor_less_iff)
qed

lemma floor_log2_ge:
  assumes "0 < x" "2 powi k \<le> x"
  shows "k \<le> \<lfloor>log 2 x\<rfloor>"
proof -
  have "2 powr (of_int k) \<le> x" using assms(2) by (simp add: powr_real_of_int')
  then have "of_int k \<le> log 2 x" using assms(1) by (simp add: le_log_iff)
  then show ?thesis by (simp add: le_floor_iff)
qed

lemma nearest_double_exact:
  assumes x: "x = of_int m * 2 powi p" and m: "\<bar>m\<bar> < 2 ^ 53" and p: "- 1074 \<le> p"
  shows "nearest_double x = x"
proof (cases "x = 0")
  case True
  then show ?thesis by (simp add: nearest_double_def)
next
  case False
  define q where "q = ulp_exponent x"
  have pos: "0 < \<bar>x\<bar>" using False by simp
  have "\<bar>real_of_int m\<bar> < 2 ^ 53" using m by (rule of_int_abs_less_power)
  then have "\<bar>real_of_int m\<bar> * 2 powi p < 2 ^ 53 * 2 powi p"
    by (intro mult_strict_right_mono) simp_all
  also have "(2::real) ^ 53 * 2 powi p = 2 powi (53 + p)"
    by (simp add: power_int_add)
  finally have "\<bar>x\<bar> < 2 powi (53 + p)" by (simp add: x abs_mult)
  then have "\<lfloor>log 2 \<bar>x\<bar>\<rfloor> < 53 + p" using pos by (rule floor_log2_less [rotated])
  then have qp: "q \<le> p" using p by (simp add: q_def ulp_exponent_def)
  define k where "k = nat (p - q)"
  have pq: "p = q + int k" using qp by (simp add: k_def)
  have "x / 2 powi q = of_int m * 2 ^ k"
    by (simp add: x pq power_int_add)
  also have "\<dots> = of_int (m * 2 ^ k)" by simp
  finally have "round_half_even (x / 2 powi q) = m * 2 ^ k"
    by (simp only: round_half_even_of_int)
  then have "nearest_double x = of_int (m * 2 ^ k) * 2 powi q"
    using False by (simp add: nearest_double_def q_def)
  also have "\<dots> = x" by (simp add: x pq power_int_add)
  finally show ?thesis .
qed

lemma round_binary64_exact:
  assumes "x = of_int m * 2 powi p" "\<bar>m\<bar> < 2 ^ 53" "- 1074 \<le> p" "\<bar>x\<bar> < binary64_overflow"
  shows "round_binary64 x = Fin x"
proof -
  have "nearest_double x = x" using assms(1-3) by (rule nearest_double_exact)
  then show ?thesis using assms(4) round_binary64_Fin [of x] by simp
qed

lemma round_binary64_of_int:
  assumes "\<bar>k\<bar> < 2 ^ 53"
  shows "round_binary64 (of_int k) = Fin (of_int k)"
proof -
  have "\<bar>real_of_int k\<bar> < 2 ^ 53" using assms by (rule of_int_abs_less_power)
  also have "(2::real) ^ 53 \<le> 2 ^ 54" by (rule power_increasing) simp_all
  also note binary64_overflow_gt
  finally show ?thesis
    using assms by (intro round_binary64_exact [of _ k 0]) simp_all
qed

lemma round_binary64_finite:
  assumes "2 * \<bar>x\<bar> < binary64_overflow"
  shows "round_binary64 x = Fin (nearest_double x)"
  using nearest_double_bound [of x] assms by (intro round_binary64_Fin) linarith

lemma round_binary64_one_plus:
  assumes "0 \<le> d" "d \<le> 1 / 2 ^ 53"
  shows "round_binary64 (1 + d) = Fin 1"
proof -
  define x where "x = 1 + d"
  have x1: "1 \<le> x" and x2: "x < 2" using assms by (simp_all add: x_def) 
  have x0: "x \<noteq> 0" using x1 by simp
  have "\<lfloor>log 2 x\<rfloor> = 0"
    using x1 x2 by (subst floor_log_eq_powr_iff) simp_all
  then have q: "ulp_exponent x = - 52" using x1 by (simp add: ulp_exponent_def)
  define t where "t = d * 2 ^ 52"
  have t0: "0 \<le> t" using assms(1) by (simp add: t_def)
  have "d * 2 ^ 52 \<le> 1 / 2 ^ 53 * 2 ^ 52" using assms(2) by (intro mult_right_mono) simp_all
  then have t1: "t \<le> 1 / 2" by (simp add: t_def)
  have xt: "x / 2 powi (- 52) = of_int (2 ^ 52) + t"
    by (simp add: x_def t_def power_int_minus field_simps)
  have fl: "\<lfloor>of_int (2 ^ 52) + t\<rfloor> = 2 ^ 52" using t0 t1 by (simp add: floor_unique)
  have r: "round_half_even (of_int (2 ^ 52) + t) = 2 ^ 52"
    unfolding round_half_even_def Let_def fl using t0 t1 by auto
  have "nearest_double x = of_int (round_half_even (x / 2 powi (- 52))) * 2 powi (- 52)"
    using x0 by (simp only: nearest_double_def q if_False)
  also have "\<dots> = of_int (2 ^ 52) * 2 powi (- 52)" by (simp only: xt r)
  also have "\<dots> = 1" by (simp add: power_int_minus)
  finally have n: "nearest_double x = 1" .
  have "round_binary64 x = Fin (nearest_double x)"
    using binary64_overflow_gt by (intro round_binary64_Fin) (simp add: n)
  then have "round_binary64 x = Fin 1" by (simp only: n)
  then show ?thesis unfolding x_def .
qed


lemma round_binary64_zero: "round_binary64 0 = Fin 0"
  using round_binary64_of_int [of 0] by simp

lemma round_binary64_one: "round_binary64 1 = Fin 1"
  using round_binary64_of_int [of 1] by simp

lemma round_binary64_numeral:
  "\<bar>numeral k :: int\<bar> < 2 ^ 53 \<Longrightarrow> round_binary64 (numeral k) = Fin (numeral k)"
  using round_binary64_of_int [of "numeral k"] by simp

lemma round_binary64_neg_numeral:
  "\<bar>numeral k :: int\<bar> < 2 ^ 53 \<Longrightarrow> round_binary64 (- numeral k) = Fin (- numeral k)"
  using round_binary64_of_int [of "- numeral k"] by simp

lemma round_binary64_neg_one: "round_binary64 (- 1) = Fin (- 1)"
  using round_binary64_of_int [of "- 1"] by simp

lemmas round_binary64_int =
  round_binary64_zero round_binary64_one round_binary64_neg_one
  round_binary64_numeral round_binary64_neg_numeral

lemma rounding_double: "rounding (double pw) = round_binary64"
  by (simp add: double_def)

lemma libm_pow_double: "libm_pow (double pw) = pw"
  by (simp add: double_def)

lemma rounding_exact: "rounding exact = Fin"
  by (simp add: exact_def)

lemma libm_pow_exact: "libm_pow exact = (\<lambda>x y. (Fin (x powr y), False))"
  by (simp add: exact_def)

lemma nearest_double_of_int: "\<bar>k\<bar> < 2 ^ 53 \<Longrightarrow> nearest_double (of_int k) = of_int k"
  by (rule nearest_double_exact [of _ k 0]) simp_all

lemma nearest_double_numeral:
  "\<bar>numeral k :: int\<bar> < 2 ^ 53 \<Longrightarrow> nearest_double (numeral k) = numeral k"
  using nearest_double_of_int [of "numeral k"] by simp

lemma nearest_double_neg_numeral:
  "\<bar>numeral k :: int\<bar> < 2 ^ 53 \<Longrightarrow> nearest_double (- numeral k) = - numeral k"
  using nearest_double_of_int [of "- numeral k"] by simp

lemma real_of_int_abs_less_overflow:
  assumes "\<bar>i\<bar> < 2 ^ 1023"
  shows "2 * \<bar>real_of_int i\<bar> < binary64_overflow"
proof -
  have "\<bar>real_of_int i\<bar> < 2 ^ 1023" using assms by (rule of_int_abs_less_power)
  then have "2 * \<bar>real_of_int i\<bar> < 2 * 2 ^ 1023" by linarith
  also have "2 * (2::real) ^ 1023 = 2 ^ Suc 1023" by (simp only: power_Suc)
  finally show ?thesis by (simp add: binary64_overflow_def)
qed

section \<open>Facts about the operations\<close>

lemma int_to_float_finite:
  "\<bar>i\<bar> < 2 ^ 1023 \<Longrightarrow> int_to_float (double pw) i = Inr (nearest_double (of_int i))"
  using round_binary64_finite [OF real_of_int_abs_less_overflow, of i]
  by (simp add: int_to_float_def rounding_double)

lemma int_to_float_exact:
  "\<bar>i\<bar> < 2 ^ 53 \<Longrightarrow> int_to_float (double pw) i = Inr (of_int i)"
  by (simp add: int_to_float_def rounding_double round_binary64_of_int)

lemma int_truediv_finite:
  assumes "j \<noteq> 0" "\<bar>i\<bar> < 2 ^ 1023"
  shows "int_truediv (double pw) i j = Inr (Fin (nearest_double (of_int i / of_int j)))"
proof -
  have "1 \<le> \<bar>j\<bar>" using assms(1) by linarith
  then have "1 \<le> \<bar>real_of_int j\<bar>" by linarith
  then have "\<bar>real_of_int i\<bar> / \<bar>real_of_int j\<bar> \<le> \<bar>real_of_int i\<bar> / 1"
    by (intro divide_left_mono) simp_all
  then have "\<bar>real_of_int i / real_of_int j\<bar> \<le> \<bar>real_of_int i\<bar>" by simp
  then have "2 * \<bar>real_of_int i / real_of_int j\<bar> < binary64_overflow"
    using real_of_int_abs_less_overflow [OF assms(2)] by linarith
  then have "round_binary64 (of_int i / of_int j) = Fin (nearest_double (of_int i / of_int j))"
    by (rule round_binary64_finite)
  then show ?thesis using assms(1) by (simp add: int_truediv_def rounding_double)
qed

lemma half_of_int_exact:
  assumes "\<bar>s\<bar> < 2 ^ 53"
  shows "round_binary64 (1 / 2 * of_int s) = Fin (of_int s / 2)"
proof -
  have "\<bar>real_of_int s\<bar> < 2 ^ 53" using assms by (rule of_int_abs_less_power)
  also have "(2::real) ^ 53 \<le> 2 ^ 54" by (rule power_increasing) simp_all
  also note binary64_overflow_gt
  finally have "\<bar>real_of_int s / 2\<bar> < binary64_overflow" by simp
  then have "round_binary64 (of_int s / 2) = Fin (of_int s / 2)"
    using assms by (intro round_binary64_exact [of _ s "- 1"]) simp_all
  then show ?thesis by simp
qed

text \<open>The exceptions a float operation can raise.\<close>

lemma fdiv_error: "fdiv ar a b = Inl e \<Longrightarrow> e = ZeroDivisionError"
  by (cases "(ar, a, b)" rule: fdiv.cases) (auto split: if_splits)

lemma int_to_float_error: "int_to_float ar i = Inl e \<Longrightarrow> e = OverflowError"
  by (auto simp: int_to_float_def split: pyfloat.splits)

lemma int_truediv_error:
  "int_truediv ar i j = Inl e \<Longrightarrow> e = ZeroDivisionError \<or> e = OverflowError"
  by (auto simp: int_truediv_def split: if_splits pyfloat.splits)

lemma num_truediv_error:
  "num_truediv ar P n = Inl e \<Longrightarrow> e = ZeroDivisionError \<or> e = OverflowError"
  by (auto simp: num_truediv_def split: pynum.splits sum.splits if_splits
      dest: int_truediv_error int_to_float_error)

lemma num_to_float_error: "num_to_float ar P = Inl e \<Longrightarrow> e = OverflowError"
  by (auto simp: num_to_float_def split: pynum.splits sum.splits dest: int_to_float_error)

lemma py_pow_error: "py_pow ar v n = Inl e \<Longrightarrow> e = ZeroDivisionError \<or> e = OverflowError"
  by (auto simp: py_pow_def Let_def split: sum.splits if_splits pyfloat.splits prod.splits
      dest: int_to_float_error)

lemma compute_emi_error:
  "compute_emi ar P rate n = Inl e \<Longrightarrow> e = ZeroDivisionError \<or> e = OverflowError"
  by (auto simp: compute_emi_def split: sum.splits if_splits
      dest: fdiv_error num_truediv_error num_to_float_error py_pow_error)

section \<open>Facts about the EMI calculator\<close>

lemma compute_emi_zero_rate:
  "compute_emi (double pw) P (Fin 0) n = num_truediv (double pw) P n"
  by (simp add: compute_emi_def rounding_double round_binary64_zero)

lemma compute_emi_zero_rate_int:
  "n \<noteq> 0 \<Longrightarrow> \<bar>P\<bar> < 2 ^ 1023 \<Longrightarrow>
   compute_emi (double pw) (PyInt P) (Fin 0) n =
     Inr (Fin (nearest_double (of_int P / of_int n)))"
  by (simp add: compute_emi_zero_rate num_truediv_def int_truediv_finite)

section \<open>Facts about the customer table\<close>

text \<open>Every customer of the table has a positive pre-approved limit.\<close>

lemma CUSTOMERS_limit_pos: "CUSTOMERS cid = Some cust \<Longrightarrow> 0 < pre_approved_limit cust"
  unfolding CUSTOMERS_def
  by (drule map_of_SomeD) (auto simp: CUSTOMERS_items_def)

lemma CUSTOMERS_CUST001: "CUSTOMERS ''CUST001'' = Some CUST001"
  by (simp add: CUSTOMERS_def CUSTOMERS_items_def CUST001_def)

lemma CUSTOMERS_CUST004: "CUSTOMERS ''CUST004'' = Some CUST004"
  by (simp add: CUSTOMERS_def CUSTOMERS_items_def CUST004_def)

section \<open>Branches of the decision procedure\<close>

lemma underwrite_exceeds:
  "700 \<le> credit_score cust \<Longrightarrow> pre_approved_limit cust < requested_amount data \<Longrightarrow>
   2 * pre_approved_limit cust < requested_amount data \<Longrightarrow>
   underwrite ar cust data =
     Inr (ok [(''decision'', PStr ''reject''),
              (''reason'', PStr ''amount_exceeds_2x_pre_approved''),
              (''pre_limit'', PInt (pre_approved_limit cust))])"
  by (simp add: underwrite_def)

lemma underwrite_within:
  "700 \<le> credit_score cust \<Longrightarrow> requested_amount data \<le> pre_approved_limit cust \<Longrightarrow>
   underwrite ar cust data =
     (case compute_emi ar (PyInt (requested_amount data)) (annual_rate data)
             (tenure_months data) of
        Inl e \<Rightarrow> Inl e
      | Inr emi \<Rightarrow>
          Inr (ok [(''decision'', PStr ''approve''), (''emi'', PFloat emi),
                   (''reason'', PStr ''within_pre_approved_limit'')]))"
  by (simp add: underwrite_def)

section \<open>The credit floor\<close>

text \<open>
  C1.  A customer whose credit score is below 700 is rejected with reason
  \<^verbatim>\<open>credit_score_below_700\<close> and the score in the payload, whatever the request: the
  amount, the tenure, the rate and the salary evidence are not looked at, and no float
  operation is run.
\<close>

theorem underwrite_credit_floor:
  "credit_score cust < 700 \<Longrightarrow>
   underwrite ar cust data =
     Inr (ok [(''decision'', PStr ''reject''), (''reason'', PStr ''credit_score_below_700''),
              (''credit_score'', PInt (credit_score cust))])"
  by (simp add: underwrite_def)

theorem underwrite_credit_floor_witness:
  "credit_score CUST004 < 700
   \<and> underwrite (double correctly_rounded_pow) CUST004
       \<lparr>customer_id = ''CUST004'', requested_amount = 0, tenure_months = 0,
        annual_rate = Fin 12, salary_provided = None, salary_slip_resource = None\<rparr>
     = Inr (ok [(''decision'', PStr ''reject''), (''reason'', PStr ''credit_score_below_700''),
                (''credit_score'', PInt 690)])"
  using underwrite_credit_floor
    [of CUST004 "double correctly_rounded_pow"
        "\<lparr>customer_id = ''CUST004'', requested_amount = 0, tenure_months = 0,
          annual_rate = Fin 12, salary_provided = None, salary_slip_resource = None\<rparr>"]
  by (simp add: CUST004_def)

section \<open>Between the limit and twice the limit, without salary evidence\<close>

text \<open>
  C4.  With a credit score of at least 700, a requested amount above the pre-approved limit
  and at most twice the limit (twice the limit included), and neither
  \<^verbatim>\<open>salary_provided\<close> nor \<^verbatim>\<open>salary_slip_resource\<close> given, the outcome is
  \<^verbatim>\<open>require_salary_slip\<close> with reason \<^verbatim>\<open>salary_slip_required\<close>; the payload has no EMI,
  and \<^verbatim>\<open>compute_emi\<close> is not called, so the tenure and the rate do not matter.
\<close>

theorem underwrite_require_salary_slip:
  "700 \<le> credit_score cust \<Longrightarrow> pre_approved_limit cust < requested_amount data \<Longrightarrow>
   requested_amount data \<le> 2 * pre_approved_limit cust \<Longrightarrow>
   salary_provided data = None \<Longrightarrow> salary_slip_resource data = None \<Longrightarrow>
   underwrite ar cust data =
     Inr (ok [(''decision'', PStr ''require_salary_slip''),
              (''reason'', PStr ''salary_slip_required'')])"
  by (simp add: underwrite_def truthy_int_def truthy_str_def)

text \<open>The boundary: customer CUST001 asks for exactly twice the limit.\<close>

theorem underwrite_require_salary_slip_witness:
  "700 \<le> credit_score CUST001
   \<and> pre_approved_limit CUST001 < 600000 \<and> (600000 :: int) \<le> 2 * pre_approved_limit CUST001
   \<and> underwrite (double correctly_rounded_pow) CUST001
       \<lparr>customer_id = ''CUST001'', requested_amount = 600000, tenure_months = 36,
        annual_rate = Fin 12, salary_provided = None, salary_slip_resource = None\<rparr>
     = Inr (ok [(''decision'', PStr ''require_salary_slip''),
                (''reason'', PStr ''salary_slip_required'')])"
  using underwrite_require_salary_slip
    [of CUST001 "\<lparr>customer_id = ''CUST001'', requested_amount = 600000, tenure_months = 36,
          annual_rate = Fin 12, salary_provided = None, salary_slip_resource = None\<rparr>"
        "double correctly_rounded_pow"]
  by (simp add: CUST001_def)

section \<open>Above twice the limit\<close>

text \<open>
  C5.  For a customer of the table with a credit score of at least 700 and a requested
  amount above twice the pre-approved limit, the endpoint returns \<^verbatim>\<open>reject\<close> with reason
  \<^verbatim>\<open>amount_exceeds_2x_pre_approved\<close> and the customer's limit under \<^verbatim>\<open>pre_limit\<close>.
\<close>

theorem call_underwrite_loan_exceeds_2x:
  "CUSTOMERS (customer_id payload) = Some cust \<Longrightarrow> 700 \<le> credit_score cust \<Longrightarrow>
   2 * pre_approved_limit cust < requested_amount payload \<Longrightarrow>
   call_underwrite_loan ar payload =
     Inr (ok [(''decision'', PStr ''reject''),
              (''reason'', PStr ''amount_exceeds_2x_pre_approved''),
              (''pre_limit'', PInt (pre_approved_limit cust))])"
proof -
  assume c: "CUSTOMERS (customer_id payload) = Some cust" and s: "700 \<le> credit_score cust"
    and a: "2 * pre_approved_limit cust < requested_amount payload"
  have "0 < pre_approved_limit cust" using c by (rule CUSTOMERS_limit_pos)
  with a have "pre_approved_limit cust < requested_amount payload" by linarith
  with s a have "underwrite ar cust payload =
     Inr (ok [(''decision'', PStr ''reject''),
              (''reason'', PStr ''amount_exceeds_2x_pre_approved''),
              (''pre_limit'', PInt (pre_approved_limit cust))])"
    by (simp add: underwrite_exceeds)
  with c show ?thesis by (simp add: call_underwrite_loan_def)
qed

theorem call_underwrite_loan_exceeds_2x_witness:
  "CUSTOMERS ''CUST001'' = Some CUST001 \<and> 700 \<le> credit_score CUST001
   \<and> 2 * pre_approved_limit CUST001 < 700000
   \<and> call_underwrite_loan (double correctly_rounded_pow)
       \<lparr>customer_id = ''CUST001'', requested_amount = 700000, tenure_months = 36,
        annual_rate = Fin 12, salary_provided = None, salary_slip_resource = None\<rparr>
     = Inr (ok [(''decision'', PStr ''reject''),
                (''reason'', PStr ''amount_exceeds_2x_pre_approved''),
                (''pre_limit'', PInt 300000)])"
  using call_underwrite_loan_exceeds_2x
    [of "\<lparr>customer_id = ''CUST001'', requested_amount = 700000, tenure_months = 36,
          annual_rate = Fin 12, salary_provided = None, salary_slip_resource = None\<rparr>" CUST001
        "double correctly_rounded_pow"]
    CUSTOMERS_CUST001
  by (simp add: CUST001_def)


section \<open>Within the pre-approved limit\<close>

text \<open>
  C3, amended.  With a credit score of at least 700 and a requested amount at most the
  pre-approved limit (the limit itself included), no salary field is read and
  \<^verbatim>\<open>compute_emi\<close> is called on the requested amount, the rate and the tenure of the
  request.  If it returns, the outcome is \<^verbatim>\<open>approve\<close> with reason
  \<^verbatim>\<open>within_pre_approved_limit\<close>, carrying the EMI returned; if it raises, the exception
  is that of the endpoint and there is no outcome.  At a rate of 0, for a tenure of at
  least one month and an amount below \<open>2 ^ 1023\<close> in magnitude, it returns: the EMI is
  the double nearest to the amount divided by the tenure.
\<close>

theorem underwrite_within_pre_approved_limit:
  "700 \<le> credit_score cust \<Longrightarrow> requested_amount data \<le> pre_approved_limit cust \<Longrightarrow>
   underwrite ar cust data =
     (case compute_emi ar (PyInt (requested_amount data)) (annual_rate data)
             (tenure_months data) of
        Inl e \<Rightarrow> Inl e
      | Inr emi \<Rightarrow>
          Inr (ok [(''decision'', PStr ''approve''), (''emi'', PFloat emi),
                   (''reason'', PStr ''within_pre_approved_limit'')]))
   \<and> (annual_rate data = Fin 0 \<and> 1 \<le> tenure_months data
        \<and> \<bar>requested_amount data\<bar> < 2 ^ 1023 \<longrightarrow>
       underwrite (double pw) cust data =
         Inr (ok [(''decision'', PStr ''approve''),
                  (''emi'', PFloat (Fin (nearest_double
                      (of_int (requested_amount data) / of_int (tenure_months data))))),
                  (''reason'', PStr ''within_pre_approved_limit'')]))"
proof (intro conjI impI)
  assume a: "700 \<le> credit_score cust" "requested_amount data \<le> pre_approved_limit cust"
  show "underwrite ar cust data =
     (case compute_emi ar (PyInt (requested_amount data)) (annual_rate data)
             (tenure_months data) of
        Inl e \<Rightarrow> Inl e
      | Inr emi \<Rightarrow>
          Inr (ok [(''decision'', PStr ''approve''), (''emi'', PFloat emi),
                   (''reason'', PStr ''within_pre_approved_limit'')]))"
    using a by (rule underwrite_within)
  assume b: "annual_rate data = Fin 0 \<and> 1 \<le> tenure_months data
        \<and> \<bar>requested_amount data\<bar> < 2 ^ 1023"
  then have "compute_emi (double pw) (PyInt (requested_amount data)) (annual_rate data)
        (tenure_months data) =
      Inr (Fin (nearest_double (of_int (requested_amount data) / of_int (tenure_months data))))"
    by (simp add: compute_emi_zero_rate_int)
  then show "underwrite (double pw) cust data =
         Inr (ok [(''decision'', PStr ''approve''),
                  (''emi'', PFloat (Fin (nearest_double
                      (of_int (requested_amount data) / of_int (tenure_months data))))),
                  (''reason'', PStr ''within_pre_approved_limit'')])"
    using underwrite_within [OF a, of "double pw"] by simp
qed

text \<open>
  The boundary: customer CUST001 asks for exactly the limit, over 12 months at 0%, and is
  approved with an EMI of 25000.0.
\<close>

theorem underwrite_within_pre_approved_limit_witness:
  "700 \<le> credit_score CUST001
   \<and> requested_amount \<lparr>customer_id = ''CUST001'', requested_amount = 300000,
        tenure_months = 12, annual_rate = Fin 0, salary_provided = None,
        salary_slip_resource = None\<rparr> \<le> pre_approved_limit CUST001
   \<and> underwrite (double correctly_rounded_pow) CUST001
       \<lparr>customer_id = ''CUST001'', requested_amount = 300000, tenure_months = 12,
        annual_rate = Fin 0, salary_provided = None, salary_slip_resource = None\<rparr>
     = Inr (ok [(''decision'', PStr ''approve''), (''emi'', PFloat (Fin 25000)),
                (''reason'', PStr ''within_pre_approved_limit'')])"
  using underwrite_within_pre_approved_limit
    [of CUST001 "\<lparr>customer_id = ''CUST001'', requested_amount = 300000, tenure_months = 12,
          annual_rate = Fin 0, salary_provided = None, salary_slip_resource = None\<rparr>"
        "double correctly_rounded_pow" correctly_rounded_pow, THEN conjunct2]
  by (simp add: CUST001_def nearest_double_numeral)

text \<open>
  The claim as stated fails for customer CUST001 asking for the limit over 0 months at 0%:
  the score is at least 700 and the amount is within the limit, yet \<^verbatim>\<open>P / n_months\<close>
  raises \<^verbatim>\<open>ZeroDivisionError\<close> and nothing is approved.
\<close>

theorem underwrite_within_pre_approved_limit_counterexample:
  "700 \<le> credit_score CUST001
   \<and> requested_amount \<lparr>customer_id = ''CUST001'', requested_amount = 300000,
        tenure_months = 0, annual_rate = Fin 0, salary_provided = None,
        salary_slip_resource = None\<rparr> \<le> pre_approved_limit CUST001
   \<and> underwrite (double correctly_rounded_pow) CUST001
       \<lparr>customer_id = ''CUST001'', requested_amount = 300000, tenure_months = 0,
        annual_rate = Fin 0, salary_provided = None, salary_slip_resource = None\<rparr>
     = Inl ZeroDivisionError"
  by (simp add: underwrite_def CUST001_def compute_emi_zero_rate num_truediv_def
      int_truediv_def)


section \<open>No positivity check on the amount\<close>

text \<open>
  C10, amended.  The endpoint does not check that the requested amount is positive.  For a
  customer of the table with a credit score of at least 700, a requested amount that is
  zero or negative is at most the pre-approved limit, and \<^verbatim>\<open>compute_emi\<close> is called on
  the non-positive principal: if it returns, the outcome is \<^verbatim>\<open>approve\<close> with reason
  \<^verbatim>\<open>within_pre_approved_limit\<close> and the EMI returned; if it raises, the endpoint raises.
  At a rate of 0, for a tenure of at least one month and an amount below \<open>2 ^ 1023\<close> in
  magnitude, the approval is returned and its EMI is not positive.
\<close>

theorem call_underwrite_loan_nonpositive_amount:
  "CUSTOMERS (customer_id payload) = Some cust \<Longrightarrow> 700 \<le> credit_score cust \<Longrightarrow>
   requested_amount payload \<le> 0 \<Longrightarrow>
   requested_amount payload \<le> pre_approved_limit cust
   \<and> call_underwrite_loan ar payload =
     (case compute_emi ar (PyInt (requested_amount payload)) (annual_rate payload)
             (tenure_months payload) of
        Inl e \<Rightarrow> Inl e
      | Inr emi \<Rightarrow>
          Inr (ok [(''decision'', PStr ''approve''), (''emi'', PFloat emi),
                   (''reason'', PStr ''within_pre_approved_limit'')]))
   \<and> (annual_rate payload = Fin 0 \<and> 1 \<le> tenure_months payload
        \<and> \<bar>requested_amount payload\<bar> < 2 ^ 1023 \<longrightarrow>
       nearest_double (of_int (requested_amount payload) / of_int (tenure_months payload)) \<le> 0
       \<and> call_underwrite_loan (double pw) payload =
         Inr (ok [(''decision'', PStr ''approve''),
                  (''emi'', PFloat (Fin (nearest_double
                      (of_int (requested_amount payload) / of_int (tenure_months payload))))),
                  (''reason'', PStr ''within_pre_approved_limit'')]))"
proof (intro conjI impI)
  assume c: "CUSTOMERS (customer_id payload) = Some cust" and s: "700 \<le> credit_score cust"
    and a: "requested_amount payload \<le> 0"
  have "0 < pre_approved_limit cust" using c by (rule CUSTOMERS_limit_pos)
  with a show le: "requested_amount payload \<le> pre_approved_limit cust" by linarith
  show "call_underwrite_loan ar payload =
     (case compute_emi ar (PyInt (requested_amount payload)) (annual_rate payload)
             (tenure_months payload) of
        Inl e \<Rightarrow> Inl e
      | Inr emi \<Rightarrow>
          Inr (ok [(''decision'', PStr ''approve''), (''emi'', PFloat emi),
                   (''reason'', PStr ''within_pre_approved_limit'')]))"
    using c underwrite_within [OF s le] by (simp add: call_underwrite_loan_def)
  assume b: "annual_rate payload = Fin 0 \<and> 1 \<le> tenure_months payload
        \<and> \<bar>requested_amount payload\<bar> < 2 ^ 1023"
  have "real_of_int (requested_amount payload) / real_of_int (tenure_months payload) \<le> 0"
    using a b by (intro divide_nonpos_pos) simp_all
  then show "nearest_double
      (of_int (requested_amount payload) / of_int (tenure_months payload)) \<le> 0"
    by (rule nearest_double_nonpos)
  from b have "compute_emi (double pw) (PyInt (requested_amount payload)) (annual_rate payload)
        (tenure_months payload) =
      Inr (Fin (nearest_double
        (of_int (requested_amount payload) / of_int (tenure_months payload))))"
    by (simp add: compute_emi_zero_rate_int)
  then show "call_underwrite_loan (double pw) payload =
         Inr (ok [(''decision'', PStr ''approve''),
                  (''emi'', PFloat (Fin (nearest_double
                      (of_int (requested_amount payload) / of_int (tenure_months payload))))),
                  (''reason'', PStr ''within_pre_approved_limit'')])"
    using c underwrite_within [OF s le, of "double pw"] by (simp add: call_underwrite_loan_def)
qed

text \<open>Customer CUST001 asks for -6000 over 12 months at 0%: approved, with an EMI of -500.0.\<close>

theorem call_underwrite_loan_nonpositive_amount_witness:
  "CUSTOMERS ''CUST001'' = Some CUST001 \<and> 700 \<le> credit_score CUST001
   \<and> (- 6000 :: int) \<le> 0
   \<and> call_underwrite_loan (double correctly_rounded_pow)
       \<lparr>customer_id = ''CUST001'', requested_amount = - 6000, tenure_months = 12,
        annual_rate = Fin 0, salary_provided = None, salary_slip_resource = None\<rparr>
     = Inr (ok [(''decision'', PStr ''approve''), (''emi'', PFloat (Fin (- 500))),
                (''reason'', PStr ''within_pre_approved_limit'')])"
  using call_underwrite_loan_nonpositive_amount
    [of "\<lparr>customer_id = ''CUST001'', requested_amount = - 6000, tenure_months = 12,
          annual_rate = Fin 0, salary_provided = None, salary_slip_resource = None\<rparr>" CUST001
        "double correctly_rounded_pow" correctly_rounded_pow, THEN conjunct2, THEN conjunct2]
    CUSTOMERS_CUST001
  by (simp add: CUST001_def nearest_double_neg_numeral)

text \<open>
  The claim as stated fails for customer CUST001 asking for -6000 over 0 months at 0%: the
  amount is not positive and the score is at least 700, yet \<^verbatim>\<open>P / n_months\<close> raises
  \<^verbatim>\<open>ZeroDivisionError\<close> and nothing is approved.
\<close>

theorem call_underwrite_loan_nonpositive_amount_counterexample:
  "CUSTOMERS ''CUST001'' = Some CUST001 \<and> 700 \<le> credit_score CUST001
   \<and> (- 6000 :: int) \<le> 0
   \<and> call_underwrite_loan (double correctly_rounded_pow)
       \<lparr>customer_id = ''CUST001'', requested_amount = - 6000, tenure_months = 0,
        annual_rate = Fin 0, salary_provided = None, salary_slip_resource = None\<rparr>
     = Inl ZeroDivisionError"
  by (simp add: CUSTOMERS_CUST001 call_underwrite_loan_def underwrite_def CUST001_def
      compute_emi_zero_rate num_truediv_def int_truediv_def)

section \<open>Between the limit and twice the limit, with salary evidence\<close>

text \<open>
  C2, amended.  With a credit score of at least 700 and a requested amount above the
  pre-approved limit and at most twice the limit:
  \<^item> when the salary slip resource is absent or empty and the provided salary is absent
    or 0, the outcome is \<^verbatim>\<open>require_salary_slip\<close>: a provided salary of 0 alone is not
    salary evidence;
  \<^item> when the salary slip resource is a non-empty string or the provided salary is a
    non-zero number, the effective salary is the provided salary if it is given and not
    0, otherwise the customer's monthly salary (so a provided salary of 0 falls back to
    the salary on file when a non-empty slip comes with it); \<^verbatim>\<open>compute_emi\<close> is called,
    then the salary is converted for \<^verbatim>\<open>0.5 * salary\<close>, and an exception of either is
    that of the endpoint; otherwise the outcome is \<^verbatim>\<open>approve\<close> with reason
    \<^verbatim>\<open>emi_within_50pct_salary\<close> if the EMI is at most half the effective salary, as floats
    compare, else \<^verbatim>\<open>reject\<close> with reason \<^verbatim>\<open>emi_exceeds_50pct_salary\<close>, with the EMI in
    the payload either way;
  \<^item> in the second case, at a rate of 0, for a tenure of at least one month, an amount
    below \<open>2 ^ 1023\<close> and an effective salary below \<open>2 ^ 53\<close> in magnitude, nothing is
    raised: the EMI is the double nearest to the amount divided by the tenure, compared
    with exactly half the effective salary.
\<close>

theorem underwrite_salary_check:
  "700 \<le> credit_score cust \<Longrightarrow> pre_approved_limit cust < requested_amount data \<Longrightarrow>
   requested_amount data \<le> 2 * pre_approved_limit cust \<Longrightarrow>
   (\<not> truthy_str (salary_slip_resource data) \<and> \<not> truthy_int (salary_provided data) \<longrightarrow>
      underwrite ar cust data =
        Inr (ok [(''decision'', PStr ''require_salary_slip''),
                 (''reason'', PStr ''salary_slip_required'')]))
   \<and> (truthy_str (salary_slip_resource data) \<or> truthy_int (salary_provided data) \<longrightarrow>
      underwrite ar cust data =
        (case compute_emi ar (PyInt (requested_amount data)) (annual_rate data)
                (tenure_months data) of
           Inl e \<Rightarrow> Inl e
         | Inr emi \<Rightarrow>
             (case int_to_float ar
                     (case salary_provided data of
                        None \<Rightarrow> salary_monthly cust
                      | Some v \<Rightarrow> if v \<noteq> 0 then v else salary_monthly cust) of
                Inl e \<Rightarrow> Inl e
              | Inr s \<Rightarrow>
                  if fle emi (fmul ar (Fin (1 / 2)) (Fin s))
                  then Inr (ok [(''decision'', PStr ''approve''), (''emi'', PFloat emi),
                                (''reason'', PStr ''emi_within_50pct_salary'')])
                  else Inr (ok [(''decision'', PStr ''reject''),
                                (''reason'', PStr ''emi_exceeds_50pct_salary''),
                                (''emi'', PFloat emi)]))))
   \<and> ((truthy_str (salary_slip_resource data) \<or> truthy_int (salary_provided data))
        \<and> annual_rate data = Fin 0 \<and> 1 \<le> tenure_months data
        \<and> \<bar>requested_amount data\<bar> < 2 ^ 1023
        \<and> \<bar>salary_or (salary_provided data) (salary_monthly cust)\<bar> < 2 ^ 53 \<longrightarrow>
      underwrite (double pw) cust data =
        (if nearest_double (of_int (requested_amount data) / of_int (tenure_months data))
              \<le> of_int (salary_or (salary_provided data) (salary_monthly cust)) / 2
         then Inr (ok [(''decision'', PStr ''approve''),
                       (''emi'', PFloat (Fin (nearest_double
                           (of_int (requested_amount data) / of_int (tenure_months data))))),
                       (''reason'', PStr ''emi_within_50pct_salary'')])
         else Inr (ok [(''decision'', PStr ''reject''),
                       (''reason'', PStr ''emi_exceeds_50pct_salary''),
                       (''emi'', PFloat (Fin (nearest_double
                           (of_int (requested_amount data) / of_int (tenure_months data)))))])))"
proof (intro conjI impI)
  assume a: "700 \<le> credit_score cust" "pre_approved_limit cust < requested_amount data"
    "requested_amount data \<le> 2 * pre_approved_limit cust"
  {
    assume "\<not> truthy_str (salary_slip_resource data) \<and> \<not> truthy_int (salary_provided data)"
    with a show "underwrite ar cust data =
        Inr (ok [(''decision'', PStr ''require_salary_slip''),
                 (''reason'', PStr ''salary_slip_required'')])"
      by (simp add: underwrite_def)
  }
  {
    assume "truthy_str (salary_slip_resource data) \<or> truthy_int (salary_provided data)"
    with a show "underwrite ar cust data =
        (case compute_emi ar (PyInt (requested_amount data)) (annual_rate data)
                (tenure_months data) of
           Inl e \<Rightarrow> Inl e
         | Inr emi \<Rightarrow>
             (case int_to_float ar
                     (case salary_provided data of
                        None \<Rightarrow> salary_monthly cust
                      | Some v \<Rightarrow> if v \<noteq> 0 then v else salary_monthly cust) of
                Inl e \<Rightarrow> Inl e
              | Inr s \<Rightarrow>
                  if fle emi (fmul ar (Fin (1 / 2)) (Fin s))
                  then Inr (ok [(''decision'', PStr ''approve''), (''emi'', PFloat emi),
                                (''reason'', PStr ''emi_within_50pct_salary'')])
                  else Inr (ok [(''decision'', PStr ''reject''),
                                (''reason'', PStr ''emi_exceeds_50pct_salary''),
                                (''emi'', PFloat emi)])))"
      by (auto simp add: underwrite_def salary_or_def Let_def split: sum.splits)
  }
  {
    assume b: "(truthy_str (salary_slip_resource data) \<or> truthy_int (salary_provided data))
        \<and> annual_rate data = Fin 0 \<and> 1 \<le> tenure_months data
        \<and> \<bar>requested_amount data\<bar> < 2 ^ 1023
        \<and> \<bar>salary_or (salary_provided data) (salary_monthly cust)\<bar> < 2 ^ 53"
    then have e: "compute_emi (double pw) (PyInt (requested_amount data)) (annual_rate data)
          (tenure_months data) =
        Inr (Fin (nearest_double (of_int (requested_amount data) / of_int (tenure_months data))))"
      by (simp add: compute_emi_zero_rate_int)
    from b have s: "int_to_float (double pw) (salary_or (salary_provided data) (salary_monthly cust))
        = Inr (of_int (salary_or (salary_provided data) (salary_monthly cust)))"
      by (simp add: int_to_float_exact)
    from b have h: "round_binary64
          (1 / 2 * of_int (salary_or (salary_provided data) (salary_monthly cust)))
        = Fin (of_int (salary_or (salary_provided data) (salary_monthly cust)) / 2)"
      by (intro half_of_int_exact) simp
    from a b show "underwrite (double pw) cust data =
        (if nearest_double (of_int (requested_amount data) / of_int (tenure_months data))
              \<le> of_int (salary_or (salary_provided data) (salary_monthly cust)) / 2
         then Inr (ok [(''decision'', PStr ''approve''),
                       (''emi'', PFloat (Fin (nearest_double
                           (of_int (requested_amount data) / of_int (tenure_months data))))),
                       (''reason'', PStr ''emi_within_50pct_salary'')])
         else Inr (ok [(''decision'', PStr ''reject''),
                       (''reason'', PStr ''emi_exceeds_50pct_salary''),
                       (''emi'', PFloat (Fin (nearest_double
                           (of_int (requested_amount data) / of_int (tenure_months data)))))]))"
      unfolding underwrite_def Let_def e s
      using h by (auto simp: rounding_double)
  }
qed

text \<open>
  Customer CUST001 asks for 450000 over 36 months at 0%, with a slip and a provided salary
  of 0: the salary on file, 60000, is used, and the EMI of 12500.0 is within half of it.
\<close>

theorem underwrite_salary_check_witness:
  "700 \<le> credit_score CUST001 \<and> pre_approved_limit CUST001 < 450000
   \<and> (450000 :: int) \<le> 2 * pre_approved_limit CUST001
   \<and> truthy_str (Some ''resource://salary_CUST001.pdf'')
   \<and> underwrite (double correctly_rounded_pow) CUST001
       \<lparr>customer_id = ''CUST001'', requested_amount = 450000, tenure_months = 36,
        annual_rate = Fin 0, salary_provided = Some 0,
        salary_slip_resource = Some ''resource://salary_CUST001.pdf''\<rparr>
     = Inr (ok [(''decision'', PStr ''approve''), (''emi'', PFloat (Fin 12500)),
                (''reason'', PStr ''emi_within_50pct_salary'')])"
  using underwrite_salary_check
    [of CUST001 "\<lparr>customer_id = ''CUST001'', requested_amount = 450000, tenure_months = 36,
          annual_rate = Fin 0, salary_provided = Some 0,
          salary_slip_resource = Some ''resource://salary_CUST001.pdf''\<rparr>"
        "double correctly_rounded_pow" correctly_rounded_pow, THEN conjunct2, THEN conjunct2]
  by (simp add: CUST001_def truthy_str_def salary_or_def nearest_double_numeral)

text \<open>
  The claim as stated fails when the provided salary is 0 and no slip is given: the salary
  evidence is present, yet the outcome is \<^verbatim>\<open>require_salary_slip\<close>, not a decision on the
  EMI against the salary on file.
\<close>

theorem underwrite_salary_check_counterexample:
  "700 \<le> credit_score CUST001 \<and> pre_approved_limit CUST001 < 450000
   \<and> (450000 :: int) \<le> 2 * pre_approved_limit CUST001
   \<and> salary_provided
        \<lparr>customer_id = ''CUST001'', requested_amount = 450000, tenure_months = 36,
         annual_rate = Fin 12, salary_provided = Some 0, salary_slip_resource = None\<rparr> = Some 0
   \<and> underwrite (double correctly_rounded_pow) CUST001
       \<lparr>customer_id = ''CUST001'', requested_amount = 450000, tenure_months = 36,
        annual_rate = Fin 12, salary_provided = Some 0, salary_slip_resource = None\<rparr>
     = Inr (ok [(''decision'', PStr ''require_salary_slip''),
                (''reason'', PStr ''salary_slip_required'')])"
  by (simp add: underwrite_def CUST001_def truthy_int_def truthy_str_def)

section \<open>No hidden state\<close>



end
